theory Spec2Isabelle
  imports Main "HOL-Library.Word" "HOL-Library.Sublist"
begin

unbundle bit_operations_syntax

section \<open>The native library seen from the wrappers\<close>

text \<open>
  The wrapper classes of \<^verbatim>\<open>sdl_wrapper\<close> own no algorithm: each method forwards to
  one function of SDL, SDL_image or SDL_ttf and inspects what it returns. The native
  library is therefore modelled from the outside: every native call is recorded in a
  history, and what a call returns is an arbitrary function of the history so far and of
  the call itself. A mocked library with fixed answers is the special case where these
  functions ignore the history.
\<close>

type_synonym ptr = nat
type_synonym cint = "32 word"
type_synonym Uint8 = "8 word"
type_synonym Uint16 = "16 word"
type_synonym Uint32 = "32 word"

definition nullptr :: ptr where
  "nullptr = 0"

text \<open>\<^verbatim>\<open>SDL_Color\<close> of the native header: the components r, g, b, a.\<close>

datatype SDL_Color = SDL_Color Uint8 Uint8 Uint8 Uint8

record GlyphMetrics =
  minx :: cint
  maxx :: cint
  miny :: cint
  maxy :: cint
  advance :: cint

datatype (plugins only: code) native_call =
    SDL_Init Uint32
  | SDL_Quit
  | SDL_GetError
  | SDL_SetHint string string
  | IMG_Init cint
  | IMG_Quit
  | IMG_GetError
  | IMG_Load string
  | TTF_Init
  | TTF_Quit
  | TTF_GetError
  | TTF_OpenFont string cint
  | TTF_CloseFont ptr
  | TTF_GlyphMetrics ptr Uint16
  | TTF_RenderGlyph_Solid ptr Uint16 SDL_Color
  | TTF_RenderGlyph_Blended ptr Uint16 SDL_Color
  | TTF_FontLineSkip ptr
  | TTF_FontAscent ptr
  | TTF_FontDescent ptr
  | TTF_FontHeight ptr
  | SDL_CreateRGBSurface Uint32 cint cint cint Uint32 Uint32 Uint32 Uint32
  | SDL_LoadBMP string
  | SDL_FreeSurface ptr
  | SDL_BlitSurface ptr ptr ptr ptr
  | SDL_LockSurface ptr
  | SDL_UnlockSurface ptr
  | SDL_DestroyTexture ptr
  | SDL_QueryTexture ptr ptr ptr ptr ptr
  | SDL_DestroyRenderer ptr
  | SDL_RenderClear ptr
  | SDL_RenderPresent ptr
  | SDL_CreateTexture ptr Uint32 cint cint cint
  | SDL_CreateTextureFromSurface ptr ptr
  | SDL_RenderSetLogicalSize ptr cint cint
  | SDL_SetRenderDrawColor ptr Uint8 Uint8 Uint8 Uint8
  | SDL_RenderDrawLine ptr cint cint cint cint
  | SDL_RenderDrawRect ptr ptr
  | SDL_RenderSetViewport ptr ptr
  | SDL_SetRenderTarget ptr ptr
  | SDL_RenderCopy ptr ptr ptr ptr
  | SDL_CreateWindow string cint cint cint cint Uint32
  | SDL_DestroyWindow ptr
  | SDL_GetWindowSurface ptr
  | SDL_UpdateWindowSurface ptr
  | SDL_CreateRenderer ptr cint Uint32

record native =
  history :: "native_call list"
  ret_int :: "native_call list \<Rightarrow> native_call \<Rightarrow> cint"
  ret_ptr :: "native_call list \<Rightarrow> native_call \<Rightarrow> ptr"
  ret_str :: "native_call list \<Rightarrow> native_call \<Rightarrow> string"
  ret_metrics :: "native_call list \<Rightarrow> native_call \<Rightarrow> GlyphMetrics"

definition logged :: "native_call \<Rightarrow> native \<Rightarrow> native" where
  "logged c n = n\<lparr>history := history n @ [c]\<rparr>"

definition call_void :: "native_call \<Rightarrow> native \<Rightarrow> native" where
  "call_void c n = logged c n"

definition call_int :: "native_call \<Rightarrow> native \<Rightarrow> cint \<times> native" where
  "call_int c n = (ret_int n (history n) c, logged c n)"

definition call_ptr :: "native_call \<Rightarrow> native \<Rightarrow> ptr \<times> native" where
  "call_ptr c n = (ret_ptr n (history n) c, logged c n)"

definition call_str :: "native_call \<Rightarrow> native \<Rightarrow> string \<times> native" where
  "call_str c n = (ret_str n (history n) c, logged c n)"

text \<open>
  \<^verbatim>\<open>TTF_GlyphMetrics\<close> returns a status and writes five integers through the pointers it
  is given; the wrapper passes the addresses of the fields of a local struct.
\<close>

definition call_metrics :: "native_call \<Rightarrow> native \<Rightarrow> (cint \<times> GlyphMetrics) \<times> native" where
  "call_metrics c n = ((ret_int n (history n) c, ret_metrics n (history n) c), logged c n)"

text \<open>Every exception of the wrappers is a \<^verbatim>\<open>std::runtime_error\<close> with a message.\<close>

datatype error = runtime_error string

fun what :: "error \<Rightarrow> string" where
  "what (runtime_error m) = m"

text \<open>Constants of the native headers (\<^verbatim>\<open>SDL.h\<close>, \<^verbatim>\<open>SDL_image.h\<close>, \<^verbatim>\<open>SDL_video.h\<close>).\<close>

definition SDL_INIT_VIDEO :: Uint32 where
  "SDL_INIT_VIDEO = 0x00000020"

definition IMG_INIT_PNG :: cint where
  "IMG_INIT_PNG = 0x00000002"

definition SDL_WINDOWPOS_UNDEFINED :: cint where
  "SDL_WINDOWPOS_UNDEFINED = 0x1FFF0000"

section \<open>Init/quit guards\<close>

text \<open>
  \<^verbatim>\<open>class SDL\<close>, \<^verbatim>\<open>class SDL_IMG\<close> and \<^verbatim>\<open>class SDLTTF\<close> have no data members. A
  constructor returns either the exception it throws or the constructed object; only a
  constructed object has a destructor to run.
\<close>

datatype SDL = SDL_object
datatype SDL_IMG = SDL_IMG_object
datatype SDLTTF = SDLTTF_object

definition SDL_ctor :: "native \<Rightarrow> (error + SDL) \<times> native" where
  "SDL_ctor n =
     (let (rc, n1) = call_int (SDL_Init SDL_INIT_VIDEO) n in
      if sint rc < 0 then (Inl (runtime_error ''SDL uninitialized''), n1)
      else (Inr SDL_object, n1))"

definition SDL_dtor :: "SDL \<Rightarrow> native \<Rightarrow> native" where
  "SDL_dtor this n = call_void SDL_Quit n"

definition SDL_IMG_ctor :: "native \<Rightarrow> (error + SDL_IMG) \<times> native" where
  "SDL_IMG_ctor n =
     (let flags = IMG_INIT_PNG;
          (rc, n1) = call_int (IMG_Init flags) n in
      if rc AND flags = 0 then
        (let (msg, n2) = call_str IMG_GetError n1 in
         (Inl (runtime_error (''IMG_Init failed! IMG_GetError: '' @ msg)), n2))
      else (Inr SDL_IMG_object, n1))"

definition SDL_IMG_dtor :: "SDL_IMG \<Rightarrow> native \<Rightarrow> native" where
  "SDL_IMG_dtor this n = call_void IMG_Quit n"

definition SDLTTF_ctor :: "native \<Rightarrow> (error + SDLTTF) \<times> native" where
  "SDLTTF_ctor n =
     (let (rc, n1) = call_int TTF_Init n in
      if sint rc < 0 then
        (let (msg, n2) = call_str TTF_GetError n1 in
         (Inl (runtime_error (''Can't init TTF! TTF_Error: '' @ msg)), n2))
      else (Inr SDLTTF_object, n1))"

definition SDLTTF_dtor :: "SDLTTF \<Rightarrow> native \<Rightarrow> native" where
  "SDLTTF_dtor this n = call_void TTF_Quit n"

text \<open>
  The guards are meant to be declared as a local variable of the scope that uses the
  library. \<open>scoped ctor dtor body\<close> is such a block: the constructor runs; if it throws,
  the block is left with that exception and neither the body nor the destructor runs;
  otherwise the body runs and the destructor runs when the block is left, whether the
  body returned or threw.
\<close>

definition scoped ::
  "(native \<Rightarrow> (error + 'g) \<times> native) \<Rightarrow> ('g \<Rightarrow> native \<Rightarrow> native) \<Rightarrow>
   ('g \<Rightarrow> native \<Rightarrow> (error + 'r) \<times> native) \<Rightarrow> native \<Rightarrow> (error + 'r) \<times> native" where
  "scoped ctor dtor body n =
     (case ctor n of
        (Inl e, n1) \<Rightarrow> (Inl e, n1)
      | (Inr guard, n1) \<Rightarrow> (let (res, n2) = body guard n1 in (res, dtor guard n2)))"


definition SDL_set_hint :: "SDL \<Rightarrow> string \<Rightarrow> string \<Rightarrow> native \<Rightarrow> (error + bool) \<times> SDL \<times> native" where
  "SDL_set_hint this name val n =
     (let (rc, n1) = call_int (SDL_SetHint name val) n in (Inr (rc \<noteq> 0), this, n1))"

section \<open>Exclusive ownership: \<^verbatim>\<open>std::unique_ptr\<close> with a deleter\<close>

text \<open>
  Each wrapper holds \<^verbatim>\<open>std::unique_ptr<T, Deleter>\<close>. The deleter type is stateless, so
  the object is the stored pointer; the operations that may release take the deleter as
  an argument. The destructor and \<^verbatim>\<open>reset\<close> call the deleter only for a non-null
  pointer, and the move constructor leaves the source holding null.
\<close>

record unique_ptr =
  stored :: ptr

definition unique_ptr_default :: unique_ptr where
  "unique_ptr_default = \<lparr>stored = nullptr\<rparr>"

definition unique_ptr_ctor :: "ptr \<Rightarrow> unique_ptr" where
  "unique_ptr_ctor p = \<lparr>stored = p\<rparr>"

definition unique_ptr_get :: "unique_ptr \<Rightarrow> ptr" where
  "unique_ptr_get u = stored u"

definition unique_ptr_reset ::
  "(ptr \<Rightarrow> native \<Rightarrow> native) \<Rightarrow> unique_ptr \<Rightarrow> ptr \<Rightarrow> native \<Rightarrow> unique_ptr \<times> native" where
  "unique_ptr_reset deleter u p n =
     (let old = stored u; u' = u\<lparr>stored := p\<rparr> in
      (u', if old \<noteq> nullptr then deleter old n else n))"

text \<open>The move constructor returns the new object and the moved-from source.\<close>

definition unique_ptr_move :: "unique_ptr \<Rightarrow> unique_ptr \<times> unique_ptr" where
  "unique_ptr_move other = (\<lparr>stored = stored other\<rparr>, other\<lparr>stored := nullptr\<rparr>)"

definition unique_ptr_dtor :: "(ptr \<Rightarrow> native \<Rightarrow> native) \<Rightarrow> unique_ptr \<Rightarrow> native \<Rightarrow> native" where
  "unique_ptr_dtor deleter u n = (if stored u \<noteq> nullptr then deleter (stored u) n else n)"

section \<open>SDLSurface\<close>

text \<open>
  A method takes the object, its arguments and the native library, and returns what it
  returns or throws, the object afterwards, and the native library afterwards.
\<close>

record SDLSurface =
  m_surface :: unique_ptr

definition SDLSurface_Deleter :: "ptr \<Rightarrow> native \<Rightarrow> native" where
  "SDLSurface_Deleter t n = (if t = nullptr then n else call_void (SDL_FreeSurface t) n)"

definition SDLSurface_ctor :: "ptr \<Rightarrow> SDLSurface" where
  "SDLSurface_ctor surface = \<lparr>m_surface = unique_ptr_ctor surface\<rparr>"

text \<open>
  The constructor from parameters: \<^verbatim>\<open>m_surface\<close> is default-constructed, then reset to
  what \<^verbatim>\<open>SDL_CreateRGBSurface\<close> returns. When the constructor throws, the member that
  was already constructed is destroyed.
\<close>

definition SDLSurface_ctor_rgb ::
  "Uint32 \<Rightarrow> cint \<Rightarrow> cint \<Rightarrow> cint \<Rightarrow> Uint32 \<Rightarrow> Uint32 \<Rightarrow> Uint32 \<Rightarrow> Uint32 \<Rightarrow> native \<Rightarrow>
   (error + SDLSurface) \<times> native" where
  "SDLSurface_ctor_rgb flags width height depth r_mask g_mask b_mask a_mask n =
     (let (p, n1) = call_ptr (SDL_CreateRGBSurface flags width height depth
                                r_mask g_mask b_mask a_mask) n;
          (u, n2) = unique_ptr_reset SDLSurface_Deleter unique_ptr_default p n1 in
      if unique_ptr_get u = nullptr then
        (let (msg, n3) = call_str SDL_GetError n2 in
         (Inl (runtime_error (''SDL_CreateRGBSurface failed! SDL_Error: '' @ msg)),
          unique_ptr_dtor SDLSurface_Deleter u n3))
      else (Inr \<lparr>m_surface = u\<rparr>, n2))"

definition SDLSurface_dtor :: "SDLSurface \<Rightarrow> native \<Rightarrow> native" where
  "SDLSurface_dtor this n = unique_ptr_dtor SDLSurface_Deleter (m_surface this) n"

definition SDLSurface_from_bmp :: "string \<Rightarrow> native \<Rightarrow> (error + SDLSurface) \<times> native" where
  "SDLSurface_from_bmp file n =
     (let (bmp, n1) = call_ptr (SDL_LoadBMP file) n in
      if bmp = nullptr then
        (let (msg, n2) = call_str SDL_GetError n1 in
         (Inl (runtime_error (''SDL_LoadBMP failed! SDL_Error: '' @ msg)), n2))
      else (Inr (SDLSurface_ctor bmp), n1))"

definition SDLSurface_from_image :: "string \<Rightarrow> native \<Rightarrow> (error + SDLSurface) \<times> native" where
  "SDLSurface_from_image file n =
     (let (img, n1) = call_ptr (IMG_Load file) n in
      if img = nullptr then
        (let (msg, n2) = call_str IMG_GetError n1 in
         (Inl (runtime_error (''IMG_Load failed! IMG_Error: '' @ msg)), n2))
      else (Inr (SDLSurface_ctor img), n1))"

definition SDLSurface_blit_to ::
  "SDLSurface \<Rightarrow> SDLSurface \<Rightarrow> native \<Rightarrow> (error + unit) \<times> SDLSurface \<times> native" where
  "SDLSurface_blit_to this destination n =
     (let (rc, n1) = call_int (SDL_BlitSurface (unique_ptr_get (m_surface this)) nullptr
                                 (unique_ptr_get (m_surface destination)) nullptr) n in
      (Inr (), this, n1))"

definition SDLSurface_lock :: "SDLSurface \<Rightarrow> native \<Rightarrow> (error + unit) \<times> SDLSurface \<times> native" where
  "SDLSurface_lock this n =
     (let (rc, n1) = call_int (SDL_LockSurface (unique_ptr_get (m_surface this))) n in
      if rc \<noteq> 0 then
        (let (msg, n2) = call_str SDL_GetError n1 in
         (Inl (runtime_error (''SDL_LockSurface failed! SDL_Error: '' @ msg)), this, n2))
      else (Inr (), this, n1))"

definition SDLSurface_unlock :: "SDLSurface \<Rightarrow> native \<Rightarrow> (error + unit) \<times> SDLSurface \<times> native" where
  "SDLSurface_unlock this n =
     (Inr (), this, call_void (SDL_UnlockSurface (unique_ptr_get (m_surface this))) n)"

definition SDLSurface_try_lock :: "SDLSurface \<Rightarrow> native \<Rightarrow> (error + bool) \<times> SDLSurface \<times> native" where
  "SDLSurface_try_lock this n =
     (let (rc, n1) = call_int (SDL_LockSurface (unique_ptr_get (m_surface this))) n in
      (Inr (rc = 0), this, n1))"

definition SDLSurface_get :: "SDLSurface \<Rightarrow> native \<Rightarrow> (error + ptr) \<times> SDLSurface \<times> native" where
  "SDLSurface_get this n = (Inr (unique_ptr_get (m_surface this)), this, n)"

section \<open>SDLTexture\<close>

record SDLTexture =
  m_texture :: unique_ptr

definition SDLTexture_Deleter :: "ptr \<Rightarrow> native \<Rightarrow> native" where
  "SDLTexture_Deleter t n = (if t = nullptr then n else call_void (SDL_DestroyTexture t) n)"

definition SDLTexture_ctor :: "ptr \<Rightarrow> SDLTexture" where
  "SDLTexture_ctor texture = \<lparr>m_texture = unique_ptr_ctor texture\<rparr>"

text \<open>The defaulted move constructor moves the member; it returns the new object and the source.\<close>

definition SDLTexture_move :: "SDLTexture \<Rightarrow> SDLTexture \<times> SDLTexture" where
  "SDLTexture_move other =
     (let (u, moved_from) = unique_ptr_move (m_texture other) in
      (\<lparr>m_texture = u\<rparr>, other\<lparr>m_texture := moved_from\<rparr>))"

definition SDLTexture_dtor :: "SDLTexture \<Rightarrow> native \<Rightarrow> native" where
  "SDLTexture_dtor this n = unique_ptr_dtor SDLTexture_Deleter (m_texture this) n"

text \<open>The four out-parameters are pointers of the caller, passed on as they are.\<close>

definition SDLTexture_query ::
  "SDLTexture \<Rightarrow> ptr \<Rightarrow> ptr \<Rightarrow> ptr \<Rightarrow> ptr \<Rightarrow> native \<Rightarrow> (error + unit) \<times> SDLTexture \<times> native" where
  "SDLTexture_query this format access w h n =
     (let (rc, n1) = call_int (SDL_QueryTexture (unique_ptr_get (m_texture this))
                                 format access w h) n in
      (Inr (), this, n1))"


section \<open>SDLRenderer\<close>

record SDLRenderer =
  m_renderer :: unique_ptr

definition SDLRenderer_Deleter :: "ptr \<Rightarrow> native \<Rightarrow> native" where
  "SDLRenderer_Deleter r n = (if r = nullptr then n else call_void (SDL_DestroyRenderer r) n)"

definition SDLRenderer_ctor :: "ptr \<Rightarrow> SDLRenderer" where
  "SDLRenderer_ctor renderer = \<lparr>m_renderer = unique_ptr_ctor renderer\<rparr>"

definition SDLRenderer_move :: "SDLRenderer \<Rightarrow> SDLRenderer \<times> SDLRenderer" where
  "SDLRenderer_move other =
     (let (u, moved_from) = unique_ptr_move (m_renderer other) in
      (\<lparr>m_renderer = u\<rparr>, other\<lparr>m_renderer := moved_from\<rparr>))"

definition SDLRenderer_dtor :: "SDLRenderer \<Rightarrow> native \<Rightarrow> native" where
  "SDLRenderer_dtor this n = unique_ptr_dtor SDLRenderer_Deleter (m_renderer this) n"

definition SDLRenderer_clear ::
  "SDLRenderer \<Rightarrow> native \<Rightarrow> (error + unit) \<times> SDLRenderer \<times> native" where
  "SDLRenderer_clear this n =
     (let (rc, n1) = call_int (SDL_RenderClear (unique_ptr_get (m_renderer this))) n in
      (Inr (), this, n1))"

text \<open>\<^verbatim>\<open>SDL_RenderPresent\<close> returns nothing.\<close>

definition SDLRenderer_present ::
  "SDLRenderer \<Rightarrow> native \<Rightarrow> (error + unit) \<times> SDLRenderer \<times> native" where
  "SDLRenderer_present this n =
     (Inr (), this, call_void (SDL_RenderPresent (unique_ptr_get (m_renderer this))) n)"

definition SDLRenderer_create_texture ::
  "SDLRenderer \<Rightarrow> Uint32 \<Rightarrow> cint \<Rightarrow> cint \<Rightarrow> cint \<Rightarrow> native \<Rightarrow>
   (error + SDLTexture) \<times> SDLRenderer \<times> native" where
  "SDLRenderer_create_texture this format access w h n =
     (let (t, n1) = call_ptr (SDL_CreateTexture (unique_ptr_get (m_renderer this))
                                format access w h) n in
      (Inr (SDLTexture_ctor t), this, n1))"

definition SDLRenderer_create_texture_from_surface ::
  "SDLRenderer \<Rightarrow> SDLSurface \<Rightarrow> native \<Rightarrow> (error + SDLTexture) \<times> SDLRenderer \<times> native" where
  "SDLRenderer_create_texture_from_surface this surface n =
     (let (t, n1) = call_ptr (SDL_CreateTextureFromSurface (unique_ptr_get (m_renderer this))
                                (unique_ptr_get (m_surface surface))) n in
      (Inr (SDLTexture_ctor t), this, n1))"

definition SDLRenderer_set_logical_size ::
  "SDLRenderer \<Rightarrow> cint \<Rightarrow> cint \<Rightarrow> native \<Rightarrow> (error + unit) \<times> SDLRenderer \<times> native" where
  "SDLRenderer_set_logical_size this w h n =
     (let (rc, n1) = call_int (SDL_RenderSetLogicalSize (unique_ptr_get (m_renderer this)) w h) n in
      (Inr (), this, n1))"

definition SDLRenderer_set_draw_color ::
  "SDLRenderer \<Rightarrow> Uint8 \<Rightarrow> Uint8 \<Rightarrow> Uint8 \<Rightarrow> Uint8 \<Rightarrow> native \<Rightarrow> (error + unit) \<times> SDLRenderer \<times> native" where
  "SDLRenderer_set_draw_color this r g b a n =
     (let (rc, n1) = call_int (SDL_SetRenderDrawColor (unique_ptr_get (m_renderer this)) r g b a) n in
      (Inr (), this, n1))"

definition SDLRenderer_draw_line ::
  "SDLRenderer \<Rightarrow> cint \<Rightarrow> cint \<Rightarrow> cint \<Rightarrow> cint \<Rightarrow> native \<Rightarrow> (error + unit) \<times> SDLRenderer \<times> native" where
  "SDLRenderer_draw_line this x1 y1 x2 y2 n =
     (let (rc, n1) = call_int (SDL_RenderDrawLine (unique_ptr_get (m_renderer this)) x1 y1 x2 y2) n in
      (Inr (), this, n1))"

definition SDLRenderer_draw_rect ::
  "SDLRenderer \<Rightarrow> ptr \<Rightarrow> native \<Rightarrow> (error + unit) \<times> SDLRenderer \<times> native" where
  "SDLRenderer_draw_rect this rect n =
     (let (rc, n1) = call_int (SDL_RenderDrawRect (unique_ptr_get (m_renderer this)) rect) n in
      (Inr (), this, n1))"

definition SDLRenderer_set_viewport ::
  "SDLRenderer \<Rightarrow> ptr \<Rightarrow> native \<Rightarrow> (error + unit) \<times> SDLRenderer \<times> native" where
  "SDLRenderer_set_viewport this rect n =
     (let (rc, n1) = call_int (SDL_RenderSetViewport (unique_ptr_get (m_renderer this)) rect) n in
      if sint rc < 0 then
        (let (msg, n2) = call_str SDL_GetError n1 in
         (Inl (runtime_error (''Could'nt set viewport! SDL_Error: '' @ msg)), this, n2))
      else (Inr (), this, n1))"

definition SDLRenderer_set_render_target ::
  "SDLRenderer \<Rightarrow> SDLTexture \<Rightarrow> native \<Rightarrow> (error + unit) \<times> SDLRenderer \<times> native" where
  "SDLRenderer_set_render_target this texture n =
     (let (rc, n1) = call_int (SDL_SetRenderTarget (unique_ptr_get (m_renderer this))
                                 (unique_ptr_get (m_texture texture))) n in
      (Inr (), this, n1))"

definition SDLRenderer_reset_render_target ::
  "SDLRenderer \<Rightarrow> native \<Rightarrow> (error + unit) \<times> SDLRenderer \<times> native" where
  "SDLRenderer_reset_render_target this n =
     (let (rc, n1) = call_int (SDL_SetRenderTarget (unique_ptr_get (m_renderer this)) nullptr) n in
      (Inr (), this, n1))"

definition SDLRenderer_draw_texture ::
  "SDLRenderer \<Rightarrow> SDLTexture \<Rightarrow> ptr \<Rightarrow> ptr \<Rightarrow> native \<Rightarrow> (error + unit) \<times> SDLRenderer \<times> native" where
  "SDLRenderer_draw_texture this texture srcrect dstrect n =
     (let (rc, n1) = call_int (SDL_RenderCopy (unique_ptr_get (m_renderer this))
                                 (unique_ptr_get (m_texture texture)) srcrect dstrect) n in
      (Inr (), this, n1))"

section \<open>SDLWindow\<close>

record SDLWindow =
  m_window :: unique_ptr

definition SDLWindow_Deleter :: "ptr \<Rightarrow> native \<Rightarrow> native" where
  "SDLWindow_Deleter w n = (if w = nullptr then n else call_void (SDL_DestroyWindow w) n)"

text \<open>
  The title is a \<^verbatim>\<open>std::string\<close>; the library is given \<^verbatim>\<open>title.c_str()\<close>, a C string,
  which ends at the first NUL character of the title.
\<close>

definition c_str :: "string \<Rightarrow> string" where
  "c_str s = takeWhile (\<lambda>c. c \<noteq> CHR 0x00) s"

definition SDLWindow_ctor ::
  "string \<Rightarrow> cint \<Rightarrow> cint \<Rightarrow> Uint32 \<Rightarrow> native \<Rightarrow> (error + SDLWindow) \<times> native" where
  "SDLWindow_ctor title width height flags n =
     (let (p, n1) = call_ptr (SDL_CreateWindow (c_str title) SDL_WINDOWPOS_UNDEFINED
                                SDL_WINDOWPOS_UNDEFINED width height flags) n;
          (u, n2) = unique_ptr_reset SDLWindow_Deleter unique_ptr_default p n1 in
      if unique_ptr_get u = nullptr then
        (let (msg, n3) = call_str SDL_GetError n2 in
         (Inl (runtime_error (''Window could not be created! SDL_Error: '' @ msg)),
          unique_ptr_dtor SDLWindow_Deleter u n3))
      else (Inr \<lparr>m_window = u\<rparr>, n2))"

definition SDLWindow_move :: "SDLWindow \<Rightarrow> SDLWindow \<times> SDLWindow" where
  "SDLWindow_move other =
     (let (u, moved_from) = unique_ptr_move (m_window other) in
      (\<lparr>m_window = u\<rparr>, other\<lparr>m_window := moved_from\<rparr>))"

definition SDLWindow_dtor :: "SDLWindow \<Rightarrow> native \<Rightarrow> native" where
  "SDLWindow_dtor this n = unique_ptr_dtor SDLWindow_Deleter (m_window this) n"

definition SDLWindow_get_surface ::
  "SDLWindow \<Rightarrow> native \<Rightarrow> (error + SDLSurface) \<times> SDLWindow \<times> native" where
  "SDLWindow_get_surface this n =
     (let (p, n1) = call_ptr (SDL_GetWindowSurface (unique_ptr_get (m_window this))) n in
      (Inr (SDLSurface_ctor p), this, n1))"

definition SDLWindow_update_surface ::
  "SDLWindow \<Rightarrow> native \<Rightarrow> (error + unit) \<times> SDLWindow \<times> native" where
  "SDLWindow_update_surface this n =
     (let (rc, n1) = call_int (SDL_UpdateWindowSurface (unique_ptr_get (m_window this))) n in
      (Inr (), this, n1))"

definition SDLWindow_create_renderer ::
  "SDLWindow \<Rightarrow> cint \<Rightarrow> Uint32 \<Rightarrow> native \<Rightarrow> (error + SDLRenderer) \<times> SDLWindow \<times> native" where
  "SDLWindow_create_renderer this index flags n =
     (let (p, n1) = call_ptr (SDL_CreateRenderer (unique_ptr_get (m_window this)) index flags) n in
      (Inr (SDLRenderer_ctor p), this, n1))"

section \<open>TTFFont and the font factory of the TTF guard\<close>

text \<open>
  The font wrapper is the one whose deleter is keyed on \<^verbatim>\<open>TTF_Font *\<close> and whose
  \<^verbatim>\<open>open\<close> is a member of \<^verbatim>\<open>SDLTTF\<close>; the other two variants of the header do not
  compile (a struct without its semicolon, unbalanced braces, a deleter on the wrong
  pointer type).
\<close>

record TTFFont =
  m_font :: unique_ptr

definition TTFFont_Deleter :: "ptr \<Rightarrow> native \<Rightarrow> native" where
  "TTFFont_Deleter t n = (if t = nullptr then n else call_void (TTF_CloseFont t) n)"

definition TTFFont_ctor :: "ptr \<Rightarrow> TTFFont" where
  "TTFFont_ctor font = \<lparr>m_font = unique_ptr_ctor font\<rparr>"

definition TTFFont_dtor :: "TTFFont \<Rightarrow> native \<Rightarrow> native" where
  "TTFFont_dtor this n = unique_ptr_dtor TTFFont_Deleter (m_font this) n"

definition TTFFont_glyph_metrics ::
  "TTFFont \<Rightarrow> Uint16 \<Rightarrow> native \<Rightarrow> (error + GlyphMetrics) \<times> TTFFont \<times> native" where
  "TTFFont_glyph_metrics this ch n =
     (let ((rc, metrics), n1) = call_metrics (TTF_GlyphMetrics (unique_ptr_get (m_font this)) ch) n in
      if sint rc < 0 then
        (let (msg, n2) = call_str TTF_GetError n1 in
         (Inl (runtime_error (''Could not get metrics! TTF_Error: '' @ msg)), this, n2))
      else (Inr metrics, this, n1))"

definition TTFFont_render_glyph_solid ::
  "TTFFont \<Rightarrow> Uint16 \<Rightarrow> SDL_Color \<Rightarrow> native \<Rightarrow> (error + SDLSurface) \<times> TTFFont \<times> native" where
  "TTFFont_render_glyph_solid this ch fg n =
     (let (surface, n1) = call_ptr (TTF_RenderGlyph_Solid (unique_ptr_get (m_font this)) ch fg) n in
      if surface = nullptr then
        (let (msg, n2) = call_str TTF_GetError n1 in
         (Inl (runtime_error (''Failure in glyph render! TTF_Error: '' @ msg)), this, n2))
      else (Inr (SDLSurface_ctor surface), this, n1))"

definition TTFFont_render_glyph_blended ::
  "TTFFont \<Rightarrow> Uint16 \<Rightarrow> SDL_Color \<Rightarrow> native \<Rightarrow> (error + SDLSurface) \<times> TTFFont \<times> native" where
  "TTFFont_render_glyph_blended this ch fg n =
     (let (surface, n1) = call_ptr (TTF_RenderGlyph_Blended (unique_ptr_get (m_font this)) ch fg) n in
      if surface = nullptr then
        (let (msg, n2) = call_str TTF_GetError n1 in
         (Inl (runtime_error (''Failure in glyph render! TTF_Error: '' @ msg)), this, n2))
      else (Inr (SDLSurface_ctor surface), this, n1))"

definition TTFFont_line_skip :: "TTFFont \<Rightarrow> native \<Rightarrow> (error + cint) \<times> TTFFont \<times> native" where
  "TTFFont_line_skip this n =
     (let (v, n1) = call_int (TTF_FontLineSkip (unique_ptr_get (m_font this))) n in (Inr v, this, n1))"

definition TTFFont_ascent :: "TTFFont \<Rightarrow> native \<Rightarrow> (error + cint) \<times> TTFFont \<times> native" where
  "TTFFont_ascent this n =
     (let (v, n1) = call_int (TTF_FontAscent (unique_ptr_get (m_font this))) n in (Inr v, this, n1))"

definition TTFFont_descent :: "TTFFont \<Rightarrow> native \<Rightarrow> (error + cint) \<times> TTFFont \<times> native" where
  "TTFFont_descent this n =
     (let (v, n1) = call_int (TTF_FontDescent (unique_ptr_get (m_font this))) n in (Inr v, this, n1))"

definition TTFFont_height :: "TTFFont \<Rightarrow> native \<Rightarrow> (error + cint) \<times> TTFFont \<times> native" where
  "TTFFont_height this n =
     (let (v, n1) = call_int (TTF_FontHeight (unique_ptr_get (m_font this))) n in (Inr v, this, n1))"

definition SDLTTF_open ::
  "SDLTTF \<Rightarrow> string \<Rightarrow> cint \<Rightarrow> native \<Rightarrow> (error + TTFFont) \<times> SDLTTF \<times> native" where
  "SDLTTF_open this file ptsize n =
     (let (font, n1) = call_ptr (TTF_OpenFont file ptsize) n in
      if font = nullptr then
        (let (msg, n2) = call_str TTF_GetError n1 in
         (Inl (runtime_error (''Could not load font! TTF_Error: '' @ msg)), this, n2))
      else (Inr (TTFFont_ctor font), this, n1))"


section \<open>The five owning wrappers taken together\<close>

text \<open>
  Properties stated for every owning wrapper range over this sum of the five classes.
  \<open>handle\<close> is the pointer the wrapper holds, \<open>destroy\<close> its destructor, and
  \<open>release_call\<close> the call of the subsystem's destroy routine on that pointer.
\<close>

datatype wrapper =
    Surface_of SDLSurface
  | Texture_of SDLTexture
  | Renderer_of SDLRenderer
  | Window_of SDLWindow
  | Font_of TTFFont

fun handle :: "wrapper \<Rightarrow> ptr" where
  "handle (Surface_of s) = unique_ptr_get (m_surface s)"
| "handle (Texture_of t) = unique_ptr_get (m_texture t)"
| "handle (Renderer_of r) = unique_ptr_get (m_renderer r)"
| "handle (Window_of w) = unique_ptr_get (m_window w)"
| "handle (Font_of f) = unique_ptr_get (m_font f)"

fun destroy :: "wrapper \<Rightarrow> native \<Rightarrow> native" where
  "destroy (Surface_of s) n = SDLSurface_dtor s n"
| "destroy (Texture_of t) n = SDLTexture_dtor t n"
| "destroy (Renderer_of r) n = SDLRenderer_dtor r n"
| "destroy (Window_of w) n = SDLWindow_dtor w n"
| "destroy (Font_of f) n = TTFFont_dtor f n"

fun release_call :: "wrapper \<Rightarrow> native_call" where
  "release_call (Surface_of s) = SDL_FreeSurface (unique_ptr_get (m_surface s))"
| "release_call (Texture_of t) = SDL_DestroyTexture (unique_ptr_get (m_texture t))"
| "release_call (Renderer_of r) = SDL_DestroyRenderer (unique_ptr_get (m_renderer r))"
| "release_call (Window_of w) = SDL_DestroyWindow (unique_ptr_get (m_window w))"
| "release_call (Font_of f) = TTF_CloseFont (unique_ptr_get (m_font f))"

text \<open>
  Move construction. \<^verbatim>\<open>SDLTexture\<close>, \<^verbatim>\<open>SDLRenderer\<close> and \<^verbatim>\<open>SDLWindow\<close> declare a
  defaulted move constructor. \<^verbatim>\<open>SDLSurface\<close> and \<^verbatim>\<open>TTFFont\<close> declare a private copy
  constructor without a body, a copy assignment and a destructor, and no move
  constructor: none is generated for them, and an expression that would move one of them
  selects the private copy constructor. For these two classes there is no move
  construction, which is the result \<open>None\<close>. Otherwise the result is the new object and
  the moved-from source.
\<close>

fun move_construct :: "wrapper \<Rightarrow> (wrapper \<times> wrapper) option" where
  "move_construct (Surface_of s) = None"
| "move_construct (Texture_of t) =
     Some (let (new, other) = SDLTexture_move t in (Texture_of new, Texture_of other))"
| "move_construct (Renderer_of r) =
     Some (let (new, other) = SDLRenderer_move r in (Renderer_of new, Renderer_of other))"
| "move_construct (Window_of w) =
     Some (let (new, other) = SDLWindow_move w in (Window_of new, Window_of other))"
| "move_construct (Font_of f) = None"

section \<open>A mocked library\<close>

text \<open>
  A library that has not been called yet and answers every call with the same status,
  the same pointer, the same error text and the same glyph metrics.
\<close>

definition mocked :: "cint \<Rightarrow> ptr \<Rightarrow> string \<Rightarrow> GlyphMetrics \<Rightarrow> native" where
  "mocked rc p msg gm =
     \<lparr>history = [], ret_int = (\<lambda>_ _. rc), ret_ptr = (\<lambda>_ _. p), ret_str = (\<lambda>_ _. msg),
      ret_metrics = (\<lambda>_ _. gm)\<rparr>"

definition metrics0 :: GlyphMetrics where
  "metrics0 = \<lparr>minx = 0, maxx = 0, miny = 0, maxy = 0, advance = 0\<rparr>"

text \<open>The glyph metrics of the font scenario.\<close>

definition mock_metrics :: GlyphMetrics where
  "mock_metrics = \<lparr>minx = 1, maxx = 9, miny = 0, maxy = 12, advance = 10\<rparr>"

section \<open>Basic facts\<close>

lemma history_logged [simp]: "history (logged c n) = history n @ [c]"
  by (simp add: logged_def)

lemma rets_logged [simp]:
  "ret_int (logged c n) = ret_int n" "ret_ptr (logged c n) = ret_ptr n"
  "ret_str (logged c n) = ret_str n" "ret_metrics (logged c n) = ret_metrics n"
  by (simp_all add: logged_def)

lemmas call_defs = call_void_def call_int_def call_ptr_def call_str_def call_metrics_def

lemmas unique_ptr_defs = unique_ptr_default_def unique_ptr_ctor_def unique_ptr_get_def
  unique_ptr_reset_def unique_ptr_move_def unique_ptr_dtor_def

lemmas dtor_defs = SDLSurface_dtor_def SDLTexture_dtor_def SDLRenderer_dtor_def
  SDLWindow_dtor_def TTFFont_dtor_def
  SDLSurface_Deleter_def SDLTexture_Deleter_def SDLRenderer_Deleter_def
  SDLWindow_Deleter_def TTFFont_Deleter_def

lemmas guard_defs = SDL_ctor_def SDL_dtor_def SDL_IMG_ctor_def SDL_IMG_dtor_def
  SDLTTF_ctor_def SDLTTF_dtor_def

lemmas surface_defs = SDLSurface_lock_def SDLSurface_unlock_def SDLSurface_try_lock_def
  SDLSurface_get_def SDLSurface_blit_to_def

lemmas renderer_defs = SDLRenderer_clear_def SDLRenderer_present_def
  SDLRenderer_set_draw_color_def SDLRenderer_draw_line_def SDLRenderer_draw_rect_def
  SDLRenderer_draw_texture_def SDLRenderer_set_render_target_def
  SDLRenderer_reset_render_target_def SDLRenderer_set_logical_size_def
  SDLRenderer_set_viewport_def SDLRenderer_create_texture_def
  SDLRenderer_create_texture_from_surface_def

lemmas font_defs = SDLTTF_open_def TTFFont_glyph_metrics_def TTFFont_render_glyph_solid_def
  TTFFont_render_glyph_blended_def TTFFont_line_skip_def TTFFont_ascent_def
  TTFFont_descent_def TTFFont_height_def TTFFont_ctor_def

lemmas move_defs = SDLTexture_move_def SDLRenderer_move_def SDLWindow_move_def

section \<open>Destruction\<close>

text \<open>
  C4. For each of the five owning wrappers (surface, texture, renderer, window, font):
  destroying a wrapper that holds a null handle leaves the native library untouched, so
  no destroy routine is called; destroying a wrapper that holds a non-null handle makes
  exactly one native call, the subsystem's destroy routine on that handle.
\<close>

theorem destroy_releases_iff_non_null:
  "(handle w = nullptr \<longrightarrow> destroy w n = n) \<and>
   (handle w \<noteq> nullptr \<longrightarrow> history (destroy w n) = history n @ [release_call w])"
  by (cases w) (simp_all add: dtor_defs unique_ptr_defs call_defs)

theorem destroy_releases_iff_non_null_witness:
  "handle (Font_of (TTFFont_ctor nullptr)) = nullptr \<and>
   destroy (Font_of (TTFFont_ctor nullptr)) (mocked 0 0 [] metrics0) = mocked 0 0 [] metrics0 \<and>
   handle (Surface_of (SDLSurface_ctor 7)) \<noteq> nullptr \<and>
   history (destroy (Surface_of (SDLSurface_ctor 7)) (mocked 0 0 [] metrics0)) = [SDL_FreeSurface 7]"
  using destroy_releases_iff_non_null [of "Font_of (TTFFont_ctor nullptr)" "mocked 0 0 [] metrics0"]
    destroy_releases_iff_non_null [of "Surface_of (SDLSurface_ctor 7)" "mocked 0 0 [] metrics0"]
  by (simp add: TTFFont_ctor_def SDLSurface_ctor_def unique_ptr_defs nullptr_def mocked_def)


section \<open>Guard lifecycle\<close>


lemma scoped_Inr:
  "ctor n = (Inr guard, n1) \<Longrightarrow>
   scoped ctor dtor body n = (fst (body guard n1), dtor guard (snd (body guard n1)))"
  by (simp add: scoped_def split: prod.splits)

lemma SDL_guard:
  "(sint (ret_int n (history n) (SDL_Init SDL_INIT_VIDEO)) < 0 \<longrightarrow>
      (\<exists>e n1. SDL_ctor n = (Inl e, n1) \<and> scoped SDL_ctor SDL_dtor body n = (Inl e, n1) \<and>
         count_list (history n1) SDL_Quit = count_list (history n) SDL_Quit)) \<and>
   (\<not> sint (ret_int n (history n) (SDL_Init SDL_INIT_VIDEO)) < 0 \<longrightarrow>
      (\<exists>guard n1. SDL_ctor n = (Inr guard, n1) \<and>
         count_list (history n1) SDL_Quit = count_list (history n) SDL_Quit \<and>
         (\<forall>m. count_list (history (SDL_dtor guard m)) SDL_Quit = Suc (count_list (history m) SDL_Quit)) \<and>
         snd (scoped SDL_ctor SDL_dtor body n) = SDL_dtor guard (snd (body guard n1))))"
  by (simp add: guard_defs call_defs scoped_def split: prod.splits)

lemma SDL_IMG_guard:
  "(ret_int n (history n) (IMG_Init IMG_INIT_PNG) AND IMG_INIT_PNG = 0 \<longrightarrow>
      (\<exists>e n1. SDL_IMG_ctor n = (Inl e, n1) \<and> scoped SDL_IMG_ctor SDL_IMG_dtor body n = (Inl e, n1) \<and>
         count_list (history n1) IMG_Quit = count_list (history n) IMG_Quit)) \<and>
   (ret_int n (history n) (IMG_Init IMG_INIT_PNG) AND IMG_INIT_PNG \<noteq> 0 \<longrightarrow>
      (\<exists>guard n1. SDL_IMG_ctor n = (Inr guard, n1) \<and>
         count_list (history n1) IMG_Quit = count_list (history n) IMG_Quit \<and>
         (\<forall>m. count_list (history (SDL_IMG_dtor guard m)) IMG_Quit = Suc (count_list (history m) IMG_Quit)) \<and>
         snd (scoped SDL_IMG_ctor SDL_IMG_dtor body n) = SDL_IMG_dtor guard (snd (body guard n1))))"
  by (simp add: guard_defs call_defs scoped_def split: prod.splits)

lemma SDLTTF_guard:
  "(sint (ret_int n (history n) TTF_Init) < 0 \<longrightarrow>
      (\<exists>e n1. SDLTTF_ctor n = (Inl e, n1) \<and> scoped SDLTTF_ctor SDLTTF_dtor body n = (Inl e, n1) \<and>
         count_list (history n1) TTF_Quit = count_list (history n) TTF_Quit)) \<and>
   (\<not> sint (ret_int n (history n) TTF_Init) < 0 \<longrightarrow>
      (\<exists>guard n1. SDLTTF_ctor n = (Inr guard, n1) \<and>
         count_list (history n1) TTF_Quit = count_list (history n) TTF_Quit \<and>
         (\<forall>m. count_list (history (SDLTTF_dtor guard m)) TTF_Quit = Suc (count_list (history m) TTF_Quit)) \<and>
         snd (scoped SDLTTF_ctor SDLTTF_dtor body n) = SDLTTF_dtor guard (snd (body guard n1))))"
  by (simp add: guard_defs call_defs scoped_def split: prod.splits)

text \<open>
  C2. For each guard (core SDL, SDL_image, SDL_ttf): when the constructor observes an
  init failure it throws, no guard object exists, a block that declares the guard is left
  with that exception without running its body or the destructor, and the paired
  shutdown routine has not been called. When the constructor observes success it returns
  the guard without calling the shutdown routine, the destructor of that guard calls the
  shutdown routine exactly once, and a block that declares the guard ends with that
  destructor, run on the state its body left.
\<close>

theorem guard_lifecycle:
  "((sint (ret_int n (history n) (SDL_Init SDL_INIT_VIDEO)) < 0 \<longrightarrow>
      (\<exists>e n1. SDL_ctor n = (Inl e, n1) \<and> scoped SDL_ctor SDL_dtor body n = (Inl e, n1) \<and>
         count_list (history n1) SDL_Quit = count_list (history n) SDL_Quit)) \<and>
   (\<not> sint (ret_int n (history n) (SDL_Init SDL_INIT_VIDEO)) < 0 \<longrightarrow>
      (\<exists>guard n1. SDL_ctor n = (Inr guard, n1) \<and>
         count_list (history n1) SDL_Quit = count_list (history n) SDL_Quit \<and>
         (\<forall>m. count_list (history (SDL_dtor guard m)) SDL_Quit = Suc (count_list (history m) SDL_Quit)) \<and>
         snd (scoped SDL_ctor SDL_dtor body n) = SDL_dtor guard (snd (body guard n1))))) \<and>
   ((ret_int n (history n) (IMG_Init IMG_INIT_PNG) AND IMG_INIT_PNG = 0 \<longrightarrow>
      (\<exists>e n1. SDL_IMG_ctor n = (Inl e, n1) \<and> scoped SDL_IMG_ctor SDL_IMG_dtor body_img n = (Inl e, n1) \<and>
         count_list (history n1) IMG_Quit = count_list (history n) IMG_Quit)) \<and>
   (ret_int n (history n) (IMG_Init IMG_INIT_PNG) AND IMG_INIT_PNG \<noteq> 0 \<longrightarrow>
      (\<exists>guard n1. SDL_IMG_ctor n = (Inr guard, n1) \<and>
         count_list (history n1) IMG_Quit = count_list (history n) IMG_Quit \<and>
         (\<forall>m. count_list (history (SDL_IMG_dtor guard m)) IMG_Quit = Suc (count_list (history m) IMG_Quit)) \<and>
         snd (scoped SDL_IMG_ctor SDL_IMG_dtor body_img n) = SDL_IMG_dtor guard (snd (body_img guard n1))))) \<and>
   ((sint (ret_int n (history n) TTF_Init) < 0 \<longrightarrow>
      (\<exists>e n1. SDLTTF_ctor n = (Inl e, n1) \<and> scoped SDLTTF_ctor SDLTTF_dtor body_ttf n = (Inl e, n1) \<and>
         count_list (history n1) TTF_Quit = count_list (history n) TTF_Quit)) \<and>
   (\<not> sint (ret_int n (history n) TTF_Init) < 0 \<longrightarrow>
      (\<exists>guard n1. SDLTTF_ctor n = (Inr guard, n1) \<and>
         count_list (history n1) TTF_Quit = count_list (history n) TTF_Quit \<and>
         (\<forall>m. count_list (history (SDLTTF_dtor guard m)) TTF_Quit = Suc (count_list (history m) TTF_Quit)) \<and>
         snd (scoped SDLTTF_ctor SDLTTF_dtor body_ttf n) = SDLTTF_dtor guard (snd (body_ttf guard n1)))))"
  by (rule conjI [OF SDL_guard conjI [OF SDL_IMG_guard SDLTTF_guard]])

text \<open>
  The witness runs a block with an empty body on two mocked libraries. Status \<open>-1\<close>
  fails the core and the font guard and passes the image guard (\<open>-1 AND 2 = 2\<close>); status
  \<open>0\<close> does the opposite.
\<close>

theorem guard_lifecycle_witness:
  "sint (ret_int (mocked (- 1) 0 ''no device'' metrics0) [] (SDL_Init SDL_INIT_VIDEO)) < 0 \<and>
   fst (scoped SDL_ctor SDL_dtor (\<lambda>guard n. (Inr (), n)) (mocked (- 1) 0 ''no device'' metrics0))
     = Inl (runtime_error ''SDL uninitialized'') \<and>
   count_list (history (snd (scoped SDL_ctor SDL_dtor (\<lambda>guard n. (Inr (), n))
     (mocked (- 1) 0 ''no device'' metrics0)))) SDL_Quit = 0 \<and>
   ret_int (mocked (- 1) 0 ''no device'' metrics0) [] (IMG_Init IMG_INIT_PNG) AND IMG_INIT_PNG \<noteq> 0 \<and>
   count_list (history (snd (scoped SDL_IMG_ctor SDL_IMG_dtor (\<lambda>guard n. (Inr (), n))
     (mocked (- 1) 0 ''no device'' metrics0)))) IMG_Quit = 1 \<and>
   sint (ret_int (mocked (- 1) 0 ''no device'' metrics0) [] TTF_Init) < 0 \<and>
   count_list (history (snd (scoped SDLTTF_ctor SDLTTF_dtor (\<lambda>guard n. (Inr (), n))
     (mocked (- 1) 0 ''no device'' metrics0)))) TTF_Quit = 0 \<and>
   \<not> sint (ret_int (mocked 0 0 [] metrics0) [] (SDL_Init SDL_INIT_VIDEO)) < 0 \<and>
   history (snd (scoped SDL_ctor SDL_dtor (\<lambda>guard n. (Inr (), n)) (mocked 0 0 [] metrics0)))
     = [SDL_Init SDL_INIT_VIDEO, SDL_Quit] \<and>
   ret_int (mocked 0 0 [] metrics0) [] (IMG_Init IMG_INIT_PNG) AND IMG_INIT_PNG = 0 \<and>
   history (snd (scoped SDL_IMG_ctor SDL_IMG_dtor (\<lambda>guard n. (Inr (), n)) (mocked 0 0 [] metrics0)))
     = [IMG_Init IMG_INIT_PNG, IMG_GetError] \<and>
   \<not> sint (ret_int (mocked 0 0 [] metrics0) [] TTF_Init) < 0 \<and>
   history (snd (scoped SDLTTF_ctor SDLTTF_dtor (\<lambda>guard n. (Inr (), n)) (mocked 0 0 [] metrics0)))
     = [TTF_Init, TTF_Quit]"
  using guard_lifecycle [of "mocked (- 1) 0 ''no device'' metrics0"
      "\<lambda>guard n. (Inr (), n)" "\<lambda>guard n. (Inr (), n)" "\<lambda>guard n. (Inr (), n)"]
    guard_lifecycle [of "mocked 0 0 [] metrics0"
      "\<lambda>guard n. (Inr (), n)" "\<lambda>guard n. (Inr (), n)" "\<lambda>guard n. (Inr (), n)"]
  by (simp add: mocked_def guard_defs call_defs scoped_def logged_def IMG_INIT_PNG_def)

section \<open>Surface locking and the raw pointer\<close>

text \<open>
  C6. For every surface: \<^verbatim>\<open>lock\<close> throws exactly when \<^verbatim>\<open>SDL_LockSurface\<close> returns a
  non-zero status, and then the exception is the one of the lock (its fixed text followed
  by the text of \<^verbatim>\<open>SDL_GetError\<close>); \<^verbatim>\<open>try_lock\<close> never throws, returns whether the
  status was zero, and has made the \<^verbatim>\<open>SDL_LockSurface\<close> call; \<^verbatim>\<open>unlock\<close> never throws
  and makes the \<^verbatim>\<open>SDL_UnlockSurface\<close> call.
\<close>

theorem surface_lock_try_lock_unlock:
  "((\<exists>e. fst (SDLSurface_lock s n) = Inl e) \<longleftrightarrow>
      ret_int n (history n) (SDL_LockSurface (unique_ptr_get (m_surface s))) \<noteq> 0) \<and>
   (ret_int n (history n) (SDL_LockSurface (unique_ptr_get (m_surface s))) \<noteq> 0 \<longrightarrow>
      fst (SDLSurface_lock s n) =
        Inl (runtime_error (''SDL_LockSurface failed! SDL_Error: '' @
          ret_str n (history n @ [SDL_LockSurface (unique_ptr_get (m_surface s))]) SDL_GetError))) \<and>
   fst (SDLSurface_try_lock s n) =
     Inr (ret_int n (history n) (SDL_LockSurface (unique_ptr_get (m_surface s))) = 0) \<and>
   history (snd (snd (SDLSurface_try_lock s n))) =
     history n @ [SDL_LockSurface (unique_ptr_get (m_surface s))] \<and>
   fst (SDLSurface_unlock s n) = Inr () \<and>
   history (snd (snd (SDLSurface_unlock s n))) =
     history n @ [SDL_UnlockSurface (unique_ptr_get (m_surface s))]"
  by (simp add: surface_defs call_defs)

theorem surface_lock_try_lock_unlock_witness:
  "ret_int (mocked (- 1) 0 ''busy'' metrics0) [] (SDL_LockSurface 7) \<noteq> 0 \<and>
   fst (SDLSurface_lock (SDLSurface_ctor 7) (mocked (- 1) 0 ''busy'' metrics0)) =
     Inl (runtime_error ''SDL_LockSurface failed! SDL_Error: busy'') \<and>
   fst (SDLSurface_try_lock (SDLSurface_ctor 7) (mocked (- 1) 0 ''busy'' metrics0)) = Inr False \<and>
   fst (SDLSurface_try_lock (SDLSurface_ctor 7) (mocked 0 0 ''busy'' metrics0)) = Inr True \<and>
   history (snd (snd (SDLSurface_try_lock (SDLSurface_ctor 7) (mocked 0 0 ''busy'' metrics0)))) =
     [SDL_LockSurface 7] \<and>
   fst (SDLSurface_unlock (SDLSurface_ctor 7) (mocked (- 1) 0 ''busy'' metrics0)) = Inr ()"
  using surface_lock_try_lock_unlock [of "SDLSurface_ctor 7" "mocked (- 1) 0 ''busy'' metrics0"]
    surface_lock_try_lock_unlock [of "SDLSurface_ctor 7" "mocked 0 0 ''busy'' metrics0"]
  by (simp add: mocked_def SDLSurface_ctor_def unique_ptr_defs surface_defs call_defs logged_def)

text \<open>
  C10. \<^verbatim>\<open>SDLSurface::get\<close> returns the pointer the wrapper holds, leaves the wrapper as
  it was and calls nothing; when the wrapper owns a surface (the pointer is not null),
  its destructor run after \<^verbatim>\<open>get\<close> makes exactly one call, \<^verbatim>\<open>SDL_FreeSurface\<close> on
  that pointer.
\<close>

theorem surface_get_keeps_ownership:
  "SDLSurface_get s n = (Inr (unique_ptr_get (m_surface s)), s, n) \<and>
   (unique_ptr_get (m_surface s) \<noteq> nullptr \<longrightarrow>
      history (SDLSurface_dtor (fst (snd (SDLSurface_get s n))) (snd (snd (SDLSurface_get s n)))) =
        history n @ [SDL_FreeSurface (unique_ptr_get (m_surface s))])"
  by (simp add: surface_defs dtor_defs unique_ptr_defs call_defs)

theorem surface_get_keeps_ownership_witness:
  "unique_ptr_get (m_surface (SDLSurface_ctor 7)) \<noteq> nullptr \<and>
   SDLSurface_get (SDLSurface_ctor 7) (mocked 0 0 [] metrics0) =
     (Inr 7, SDLSurface_ctor 7, mocked 0 0 [] metrics0) \<and>
   history (SDLSurface_dtor (fst (snd (SDLSurface_get (SDLSurface_ctor 7) (mocked 0 0 [] metrics0))))
              (snd (snd (SDLSurface_get (SDLSurface_ctor 7) (mocked 0 0 [] metrics0))))) =
     [SDL_FreeSurface 7]"
  using surface_get_keeps_ownership [of "SDLSurface_ctor 7" "mocked 0 0 [] metrics0"]
  by (simp add: mocked_def SDLSurface_ctor_def unique_ptr_defs nullptr_def surface_defs
      dtor_defs call_defs logged_def)

section \<open>Forwarding operations\<close>

text \<open>
  C9. \<^verbatim>\<open>clear\<close>, \<^verbatim>\<open>present\<close>, \<^verbatim>\<open>set_draw_color\<close>, \<^verbatim>\<open>draw_line\<close>, \<^verbatim>\<open>draw_rect\<close>,
  \<^verbatim>\<open>draw_texture\<close>, \<^verbatim>\<open>set_render_target\<close>, \<^verbatim>\<open>reset_render_target\<close>,
  \<^verbatim>\<open>set_logical_size\<close>, \<^verbatim>\<open>blit_to\<close> and \<^verbatim>\<open>query\<close> return normally on every object,
  every argument and every native library, whatever status the native call returns.
  Among the operations of the renderer, \<^verbatim>\<open>set_viewport\<close> throws exactly when the
  status is negative, and the two remaining ones, the texture factories, do not throw
  either.
\<close>

theorem forwarding_discards_status:
  "fst (SDLRenderer_clear rd n) = Inr () \<and>
   fst (SDLRenderer_present rd n) = Inr () \<and>
   fst (SDLRenderer_set_draw_color rd cr cg cb ca n) = Inr () \<and>
   fst (SDLRenderer_draw_line rd x1 y1 x2 y2 n) = Inr () \<and>
   fst (SDLRenderer_draw_rect rd rect n) = Inr () \<and>
   fst (SDLRenderer_draw_texture rd tx srcrect dstrect n) = Inr () \<and>
   fst (SDLRenderer_set_render_target rd tx n) = Inr () \<and>
   fst (SDLRenderer_reset_render_target rd n) = Inr () \<and>
   fst (SDLRenderer_set_logical_size rd w h n) = Inr () \<and>
   fst (SDLSurface_blit_to sf dest n) = Inr () \<and>
   fst (SDLTexture_query tx fmt acc pw ph n) = Inr () \<and>
   ((\<exists>e. fst (SDLRenderer_set_viewport rd rect n) = Inl e) \<longleftrightarrow>
      sint (ret_int n (history n) (SDL_RenderSetViewport (unique_ptr_get (m_renderer rd)) rect)) < 0) \<and>
   (\<exists>t. fst (SDLRenderer_create_texture rd fmt2 acc2 w h n) = Inr t) \<and>
   (\<exists>t. fst (SDLRenderer_create_texture_from_surface rd sf n) = Inr t)"
  by (simp add: renderer_defs surface_defs SDLTexture_query_def call_defs)

theorem forwarding_discards_status_witness:
  "fst (SDLRenderer_clear (SDLRenderer_ctor 5) (mocked (- 1) 0 ''lost'' metrics0)) = Inr () \<and>
   fst (SDLSurface_blit_to (SDLSurface_ctor 7) (SDLSurface_ctor 8) (mocked (- 1) 0 ''lost'' metrics0)) = Inr () \<and>
   sint (ret_int (mocked (- 1) 0 ''lost'' metrics0) [] (SDL_RenderSetViewport 5 0)) < 0 \<and>
   (\<exists>e. fst (SDLRenderer_set_viewport (SDLRenderer_ctor 5) 0 (mocked (- 1) 0 ''lost'' metrics0)) = Inl e) \<and>
   \<not> sint (ret_int (mocked 0 0 ''lost'' metrics0) [] (SDL_RenderSetViewport 5 0)) < 0 \<and>
   \<not> (\<exists>e. fst (SDLRenderer_set_viewport (SDLRenderer_ctor 5) 0 (mocked 0 0 ''lost'' metrics0)) = Inl e)"
  using forwarding_discards_status [of "SDLRenderer_ctor 5" "mocked (- 1) 0 ''lost'' metrics0"
      _ _ _ _ _ _ _ _ 0 _ _ _ _ _ "SDLSurface_ctor 7" "SDLSurface_ctor 8"]
    forwarding_discards_status [of "SDLRenderer_ctor 5" "mocked 0 0 ''lost'' metrics0"
      _ _ _ _ _ _ _ _ 0]
  by (simp add: mocked_def SDLRenderer_ctor_def SDLSurface_ctor_def unique_ptr_defs
      renderer_defs surface_defs call_defs logged_def)


section \<open>Move construction\<close>

text \<open>
  C5, as the claim states it, fails for the surface wrapper: there is no move
  construction of an \<^verbatim>\<open>SDLSurface\<close>.
\<close>

theorem surface_not_move_constructible:
  "move_construct (Surface_of (SDLSurface_ctor 7)) = None"
  by simp

text \<open>
  C5, amended. The texture, renderer and window wrappers can be move-constructed; the
  surface and font wrappers cannot. After a move construction the source holds null and
  destroying it leaves the native library untouched; the new object holds the handle
  the source held, and when that handle is not null, destroying the new object makes
  exactly one call, the destroy routine on that handle.
\<close>

theorem move_transfers_ownership:
  "move_construct (Texture_of t) \<noteq> None \<and> move_construct (Renderer_of r) \<noteq> None \<and>
   move_construct (Window_of w) \<noteq> None \<and>
   move_construct (Surface_of s) = None \<and> move_construct (Font_of f) = None \<and>
   (move_construct src = Some (new, other) \<longrightarrow>
      handle other = nullptr \<and> destroy other n = n \<and> handle new = handle src \<and>
      (handle src \<noteq> nullptr \<longrightarrow> history (destroy new n) = history n @ [release_call src]))"
  by (cases src) (auto simp add: move_defs dtor_defs unique_ptr_defs call_defs)

theorem move_transfers_ownership_witness:
  "move_construct (Texture_of (SDLTexture_ctor 9)) =
     Some (Texture_of (SDLTexture_ctor 9), Texture_of (SDLTexture_ctor nullptr)) \<and>
   handle (Texture_of (SDLTexture_ctor 9)) \<noteq> nullptr \<and>
   destroy (Texture_of (SDLTexture_ctor nullptr)) (mocked 0 0 [] metrics0) = mocked 0 0 [] metrics0 \<and>
   history (destroy (Texture_of (SDLTexture_ctor 9)) (mocked 0 0 [] metrics0)) = [SDL_DestroyTexture 9]"
  using move_transfers_ownership [of _ _ _ _ _ "Texture_of (SDLTexture_ctor 9)"
      "Texture_of (SDLTexture_ctor 9)" "Texture_of (SDLTexture_ctor nullptr)" "mocked 0 0 [] metrics0"]
  by (simp add: move_defs dtor_defs unique_ptr_defs call_defs SDLTexture_ctor_def nullptr_def
      mocked_def logged_def)

section \<open>Factories\<close>

text \<open>
  The factories that check what the library returned: the font \<^verbatim>\<open>open\<close>, the two
  surface loaders, the surface constructor from parameters and the window constructor.
  On a non-null pointer they return a wrapper holding it; on null they throw the fixed
  text followed by the text of the subsystem's \<^verbatim>\<open>GetError\<close>, read after the failed call.
\<close>

lemma checked_factories:
  "fst (SDLTTF_open guard file ptsize n) =
     (if ret_ptr n (history n) (TTF_OpenFont file ptsize) = nullptr
      then Inl (runtime_error (''Could not load font! TTF_Error: '' @
             ret_str n (history n @ [TTF_OpenFont file ptsize]) TTF_GetError))
      else Inr (TTFFont_ctor (ret_ptr n (history n) (TTF_OpenFont file ptsize))))"
  "fst (SDLSurface_from_bmp file n) =
     (if ret_ptr n (history n) (SDL_LoadBMP file) = nullptr
      then Inl (runtime_error (''SDL_LoadBMP failed! SDL_Error: '' @
             ret_str n (history n @ [SDL_LoadBMP file]) SDL_GetError))
      else Inr (SDLSurface_ctor (ret_ptr n (history n) (SDL_LoadBMP file))))"
  "fst (SDLSurface_from_image file n) =
     (if ret_ptr n (history n) (IMG_Load file) = nullptr
      then Inl (runtime_error (''IMG_Load failed! IMG_Error: '' @
             ret_str n (history n @ [IMG_Load file]) IMG_GetError))
      else Inr (SDLSurface_ctor (ret_ptr n (history n) (IMG_Load file))))"
  "fst (SDLSurface_ctor_rgb fl wd ht dp rm gm bm am n) =
     (if ret_ptr n (history n) (SDL_CreateRGBSurface fl wd ht dp rm gm bm am) = nullptr
      then Inl (runtime_error (''SDL_CreateRGBSurface failed! SDL_Error: '' @
             ret_str n (history n @ [SDL_CreateRGBSurface fl wd ht dp rm gm bm am]) SDL_GetError))
      else Inr (SDLSurface_ctor (ret_ptr n (history n) (SDL_CreateRGBSurface fl wd ht dp rm gm bm am))))"
  "fst (SDLWindow_ctor title wd ht fl n) =
     (if ret_ptr n (history n) (SDL_CreateWindow (c_str title) SDL_WINDOWPOS_UNDEFINED
           SDL_WINDOWPOS_UNDEFINED wd ht fl) = nullptr
      then Inl (runtime_error (''Window could not be created! SDL_Error: '' @
             ret_str n (history n @ [SDL_CreateWindow (c_str title) SDL_WINDOWPOS_UNDEFINED
               SDL_WINDOWPOS_UNDEFINED wd ht fl]) SDL_GetError))
      else Inr \<lparr>m_window = unique_ptr_ctor (ret_ptr n (history n)
             (SDL_CreateWindow (c_str title) SDL_WINDOWPOS_UNDEFINED SDL_WINDOWPOS_UNDEFINED wd ht fl))\<rparr>)"
  by (simp_all add: font_defs SDLSurface_from_bmp_def SDLSurface_from_image_def
      SDLSurface_ctor_rgb_def SDLWindow_ctor_def SDLSurface_ctor_def call_defs unique_ptr_defs
      dtor_defs)

text \<open>
  C1 does not hold for the renderer and texture factories. \<^verbatim>\<open>create_renderer\<close>,
  \<^verbatim>\<open>create_texture\<close> and \<^verbatim>\<open>create_texture_from_surface\<close> wrap what the library
  returns without looking at it: on a library that returns null, each returns a wrapper
  that holds null instead of throwing.
\<close>

theorem unchecked_factories_wrap_null:
  "fst (SDLWindow_create_renderer \<lparr>m_window = unique_ptr_ctor 3\<rparr> 0 0
         (mocked 0 nullptr ''no driver'' metrics0)) = Inr (SDLRenderer_ctor nullptr) \<and>
   fst (SDLRenderer_create_texture (SDLRenderer_ctor 5) 0 0 64 64
         (mocked 0 nullptr ''no driver'' metrics0)) = Inr (SDLTexture_ctor nullptr) \<and>
   fst (SDLRenderer_create_texture_from_surface (SDLRenderer_ctor 5) (SDLSurface_ctor 7)
         (mocked 0 nullptr ''no driver'' metrics0)) = Inr (SDLTexture_ctor nullptr)"
  by (simp add: SDLWindow_create_renderer_def renderer_defs call_defs mocked_def)

text \<open>
  C7. When \<^verbatim>\<open>TTF_OpenFont\<close> returns a non-null handle, \<^verbatim>\<open>open\<close> returns a font that
  holds exactly that handle; and whenever afterwards \<^verbatim>\<open>TTF_GlyphMetrics\<close> on that handle
  reports success (a non-negative status), \<^verbatim>\<open>glyph_metrics\<close> returns the five values the
  library wrote, unchanged.
\<close>

theorem font_open_then_glyph_metrics:
  assumes "ret_ptr n (history n) (TTF_OpenFont file ptsize) = h" and "h \<noteq> nullptr"
  shows "\<exists>font. fst (SDLTTF_open guard file ptsize n) = Inr font \<and>
           unique_ptr_get (m_font font) = h \<and>
           (\<forall>n2. 0 \<le> sint (ret_int n2 (history n2) (TTF_GlyphMetrics h ch)) \<longrightarrow>
              fst (TTFFont_glyph_metrics font ch n2) =
                Inr (ret_metrics n2 (history n2) (TTF_GlyphMetrics h ch)))"
  using assms by (simp add: font_defs call_defs unique_ptr_defs)

theorem font_open_then_glyph_metrics_witness:
  "ret_ptr (mocked 0 42 [] mock_metrics) [] (TTF_OpenFont ''font.ttf'' 16) = 42 \<and> 42 \<noteq> nullptr \<and>
   fst (SDLTTF_open SDLTTF_object ''font.ttf'' 16 (mocked 0 42 [] mock_metrics)) = Inr (TTFFont_ctor 42) \<and>
   0 \<le> sint (ret_int (mocked 0 42 [] mock_metrics) [TTF_OpenFont ''font.ttf'' 16] (TTF_GlyphMetrics 42 65)) \<and>
   fst (TTFFont_glyph_metrics (TTFFont_ctor 42) 65
         (snd (snd (SDLTTF_open SDLTTF_object ''font.ttf'' 16 (mocked 0 42 [] mock_metrics))))) =
     Inr \<lparr>minx = 1, maxx = 9, miny = 0, maxy = 12, advance = 10\<rparr>"
proof -
  have a: "ret_ptr (mocked 0 42 [] mock_metrics) (history (mocked 0 42 [] mock_metrics))
             (TTF_OpenFont ''font.ttf'' 16) = 42"
    by (simp add: mocked_def)
  have b: "(42::ptr) \<noteq> nullptr" by (simp add: nullptr_def)
  from font_open_then_glyph_metrics [OF a b, of SDLTTF_object 65] show ?thesis
    by (simp add: font_defs call_defs unique_ptr_defs mocked_def mock_metrics_def nullptr_def logged_def)
qed

section \<open>Error messages\<close>

text \<open>
  C3 does not hold for the core guard. When \<^verbatim>\<open>SDL_Init\<close> fails, \<^verbatim>\<open>SDL::SDL\<close> throws
  the fixed text alone: \<^verbatim>\<open>SDL_GetError\<close> is not called and the last-error text of the
  library is not in the message.
\<close>

theorem SDL_ctor_message_without_last_error:
  "fst (SDL_ctor (mocked (- 1) 0 ''No available video device'' metrics0)) =
     Inl (runtime_error ''SDL uninitialized'') \<and>
   history (snd (SDL_ctor (mocked (- 1) 0 ''No available video device'' metrics0))) =
     [SDL_Init SDL_INIT_VIDEO] \<and>
   \<not> sublist ''No available video device'' ''SDL uninitialized''"
proof -
  have "\<not> sublist ''No available video device'' ''SDL uninitialized''"
    using sublist_length_le [of "''No available video device''" "''SDL uninitialized''"] by auto
  then show ?thesis
    by (simp add: guard_defs call_defs mocked_def logged_def)
qed

text \<open>
  The font scenario of the same claim holds: with a null result and the last error
  \<open>file not found\<close>, the message of the exception contains \<open>file not found\<close>.
\<close>

lemma font_open_file_not_found:
  "\<exists>e. fst (SDLTTF_open guard file ptsize (mocked 0 nullptr ''file not found'' metrics0)) = Inl e \<and>
        sublist ''file not found'' (what e)"
proof -
  have "fst (SDLTTF_open guard file ptsize (mocked 0 nullptr ''file not found'' metrics0)) =
          Inl (runtime_error (''Could not load font! TTF_Error: '' @ ''file not found''))"
    by (simp add: font_defs call_defs mocked_def)
  moreover have "sublist ''file not found'' (''Could not load font! TTF_Error: '' @ ''file not found'')"
    by (rule sublist_append_leftI)
  ultimately show ?thesis
    by (metis what.simps)
qed

text \<open>
  The other raise sites outside the factories: each message is the fixed text followed
  by the text of the subsystem's \<^verbatim>\<open>GetError\<close>, read after the failed call.
\<close>

lemma raise_sites_append_last_error:
  "fst (SDL_IMG_ctor n) = Inl e \<Longrightarrow>
     what e = ''IMG_Init failed! IMG_GetError: '' @
       ret_str n (history n @ [IMG_Init IMG_INIT_PNG]) IMG_GetError"
  "fst (SDLTTF_ctor n) = Inl e \<Longrightarrow>
     what e = ''Can't init TTF! TTF_Error: '' @ ret_str n (history n @ [TTF_Init]) TTF_GetError"
  "fst (SDLSurface_lock sf n) = Inl e \<Longrightarrow>
     what e = ''SDL_LockSurface failed! SDL_Error: '' @
       ret_str n (history n @ [SDL_LockSurface (unique_ptr_get (m_surface sf))]) SDL_GetError"
  "fst (SDLRenderer_set_viewport rd rect n) = Inl e \<Longrightarrow>
     what e = ''Could'nt set viewport! SDL_Error: '' @
       ret_str n (history n @ [SDL_RenderSetViewport (unique_ptr_get (m_renderer rd)) rect]) SDL_GetError"
  "fst (TTFFont_glyph_metrics font ch n) = Inl e \<Longrightarrow>
     what e = ''Could not get metrics! TTF_Error: '' @
       ret_str n (history n @ [TTF_GlyphMetrics (unique_ptr_get (m_font font)) ch]) TTF_GetError"
  "fst (TTFFont_render_glyph_solid font ch fg n) = Inl e \<Longrightarrow>
     what e = ''Failure in glyph render! TTF_Error: '' @
       ret_str n (history n @ [TTF_RenderGlyph_Solid (unique_ptr_get (m_font font)) ch fg]) TTF_GetError"
  "fst (TTFFont_render_glyph_blended font ch fg n) = Inl e \<Longrightarrow>
     what e = ''Failure in glyph render! TTF_Error: '' @
       ret_str n (history n @ [TTF_RenderGlyph_Blended (unique_ptr_get (m_font font)) ch fg]) TTF_GetError"
  by (auto simp add: guard_defs surface_defs renderer_defs font_defs call_defs Let_def
      split: if_splits)

section \<open>Fonts and the TTF guard\<close>









end
